theory Spec2Isabelle
  imports Complex_Main "HOL-Library.Sublist" "HOL-Library.List_Lexorder" "HOL-Library.Char_ord"
    "HOL-Library.Multiset"
begin

section \<open>Data model\<close>

text \<open>
  The dashboard \<^verbatim>\<open>Skyscrapers.py\<close> reads one spreadsheet into a pandas data frame and
  renders widgets from it. A row of the sheet is a record: the four columns the script
  reads by their fixed labels (\<^verbatim>\<open>name\<close>, \<^verbatim>\<open>location.city\<close>, \<^verbatim>\<open>location.latitude\<close>,
  \<^verbatim>\<open>location.longitude\<close>) and the remaining numeric columns, read by label through
  \<open>cell\<close>. A coordinate may be blank (\<open>None\<close>), which is what \<^verbatim>\<open>dropna\<close> tests.
  A cell of a numeric column holds a number (the height column is read as numeric; blank
  height cells are outside the model). Numbers are rationals: comparisons, maxima and
  counts are exact as in the program, and a mean is the exact quotient (the rounding of
  binary floating point is outside the model).
  Every row of a frame carries its index label, the position of the row in the sheet
  (\<^verbatim>\<open>read_excel\<close> builds a range index), which filtering and sorting keep.
\<close>

record row =
  name :: string
  city :: string
  latitude :: "rat option"
  longitude :: "rat option"
  cell :: "string \<Rightarrow> rat"

type_synonym irow = "nat \<times> row"

record frame =
  columns :: "string list"
  rows :: "irow list"

text \<open>An uploaded file either fails to parse, with the parser's message, or holds a header
  and its rows.\<close>

datatype xlsx = Corrupt string | Workbook "string list" "row list"

datatype py_error = KeyError string | ValueError string

text \<open>What the user picks in the three input widgets.\<close>

record ui =
  selected_city :: "string option"
  sort_order :: string
  min_height :: int

text \<open>
  One constructor for each call that puts something on the page, with the data the call
  is given. Text that the script builds with f-strings is kept as its arguments.
\<close>

datatype element =
    Markdown_style
  | Title string
  | File_uploader string
  | St_error string
  | Sidebar_write nat nat
  | Sidebar_error string
  | Selectbox string "string list"
  | Radio string "string list"
  | Write_caption "string option" string
  | Write_table "string list" "irow list"
  | Warning string
  | Subheader string
  | Write_city_group "(string \<times> rat option) list"
  | Balloons
  | Highlights nat string rat "rat option"
  | Sidebar_subheader string
  | Slider string int int int
  | Pydeck_chart "irow list" "rat option" "rat option"
  | Warning_no_rows int "string option"
  | Header "string option" int
  | Expander_write "irow list"
  | Pyplot_hist nat "rat list"
  | Write_sample nat string rat
  | Pyplot_pie "(string \<times> nat) list"

text \<open>
  A run of the script is what it has put on the page and how it ended: it ran to the end,
  \<^verbatim>\<open>st.stop()\<close> halted it, or an exception did. Nothing is rendered after a halt.
\<close>

datatype status = Done | Stopped | Raised py_error

type_synonym run = "element list \<times> status"

definition emit :: "element list \<Rightarrow> run" where
  "emit os = (os, Done)"

definition raise :: "py_error \<Rightarrow> run" where
  "raise e = ([], Raised e)"

definition seq :: "run \<Rightarrow> run \<Rightarrow> run" where
  "seq a b = (case snd a of Done \<Rightarrow> (fst a @ fst b, snd b) | _ \<Rightarrow> a)"

section \<open>The pandas operations the script calls\<close>

definition lower_char :: "char \<Rightarrow> char" where
  "lower_char c =
     (case map_of (zip ''ABCDEFGHIJKLMNOPQRSTUVWXYZ'' ''abcdefghijklmnopqrstuvwxyz'') c of
        None \<Rightarrow> c
      | Some l \<Rightarrow> l)"

definition lower :: "string \<Rightarrow> string" where
  "lower s = map lower_char s"

text \<open>Python's \<^verbatim>\<open>sub in s\<close> on strings.\<close>

fun contains :: "string \<Rightarrow> string \<Rightarrow> bool" where
  "contains sub [] = (sub = [])"
| "contains sub (c # cs) = (take (length sub) (c # cs) = sub \<or> contains sub cs)"

text \<open>\<^verbatim>\<open>Series.unique()\<close>: the distinct values in order of first appearance.\<close>

fun unique_from :: "'a list \<Rightarrow> 'a list \<Rightarrow> 'a list" where
  "unique_from seen [] = []"
| "unique_from seen (x # xs) =
     (if x \<in> set seen then unique_from seen xs else x # unique_from (x # seen) xs)"

definition unique :: "'a list \<Rightarrow> 'a list" where
  "unique xs = unique_from [] xs"

text \<open>\<^verbatim>\<open>Series.mean()\<close> and \<^verbatim>\<open>Series.max()\<close>; on an empty series both are NaN, here \<open>None\<close>.\<close>

definition mean :: "rat list \<Rightarrow> rat option" where
  "mean vs = (if vs = [] then None else Some (sum_list vs / of_nat (length vs)))"

fun max_list :: "rat list \<Rightarrow> rat option" where
  "max_list [] = None"
| "max_list (v # vs) = Some (fold max vs v)"

text \<open>Python's \<^verbatim>\<open>int(x)\<close> on a number: truncation towards zero.\<close>

definition py_int :: "rat \<Rightarrow> int" where
  "py_int q = (if 0 \<le> q then \<lfloor>q\<rfloor> else \<lceil>q\<rceil>)"

definition col :: "string \<Rightarrow> irow \<Rightarrow> rat" where
  "col c x = cell (snd x) c"

text \<open>\<^verbatim>\<open>dropna(subset=['location.latitude', 'location.longitude'])\<close>: a row goes when
  either coordinate is blank. The labels of the rows that stay are unchanged.\<close>

definition dropna :: "frame \<Rightarrow> frame" where
  "dropna data =
     data\<lparr>rows := filter (\<lambda>x. latitude (snd x) \<noteq> None \<and> longitude (snd x) \<noteq> None) (rows data)\<rparr>"

text \<open>\<^verbatim>\<open>DataFrame.rename(columns=m)\<close> on the header; a label that \<open>m\<close> does not
  mention stays.\<close>

definition rename :: "(string \<times> string) list \<Rightarrow> string list \<Rightarrow> string list" where
  "rename m cols = map (\<lambda>c. case map_of m c of None \<Rightarrow> c | Some c' \<Rightarrow> c') cols"

text \<open>
  \<^verbatim>\<open>sort_values(by=c, ascending=a)\<close> on one column. pandas sorts the positions with
  \<^verbatim>\<open>argsort\<close>; for a descending sort it reverses the rows, sorts them ascending and
  reverses the result. The sort of the positions is taken stable, as numpy's is on the
  short inputs used below; \<open>sort_key\<close> is the stable insertion sort.
\<close>

definition sort_values :: "string \<Rightarrow> bool \<Rightarrow> irow list \<Rightarrow> irow list" where
  "sort_values c ascending xs =
     (if ascending then sort_key (col c) xs else rev (sort_key (col c) (rev xs)))"

text \<open>\<^verbatim>\<open>Series.idxmax()\<close>: the label of the first row that holds the maximum;
  \<^verbatim>\<open>.loc[label]\<close>: the row with that label.\<close>

definition idxmax :: "(nat \<times> rat) list \<Rightarrow> py_error + nat" where
  "idxmax s =
     (case max_list (map snd s) of
        None \<Rightarrow> Inl (ValueError ''attempt to get argmax of an empty sequence'')
      | Some m \<Rightarrow>
          (case find (\<lambda>p. snd p = m) s of
             None \<Rightarrow> Inl (ValueError ''attempt to get argmax of an empty sequence'')
           | Some p \<Rightarrow> Inr (fst p)))"

definition loc :: "irow list \<Rightarrow> nat \<Rightarrow> py_error + irow" where
  "loc xs l = (case find (\<lambda>x. fst x = l) xs of None \<Rightarrow> Inl (KeyError ''loc'') | Some x \<Rightarrow> Inr x)"

text \<open>\<^verbatim>\<open>groupby('location.city')[c].mean().reset_index()\<close>: one line per city, the
  cities in ascending order.\<close>

definition groupby_mean :: "string \<Rightarrow> irow list \<Rightarrow> (string \<times> rat option) list" where
  "groupby_mean c xs =
     map (\<lambda>k. (k, mean (map (col c) (filter (\<lambda>x. city (snd x) = k) xs))))
       (sort (remdups (map (\<lambda>x. city (snd x)) xs)))"

text \<open>\<^verbatim>\<open>Series.value_counts().reset_index()\<close>: each distinct value with the number of
  its rows, the largest count first.\<close>

definition value_counts :: "string list \<Rightarrow> (string \<times> nat) list" where
  "value_counts vs =
     rev (sort_key snd (rev (map (\<lambda>k. (k, length (filter (\<lambda>v. v = k) vs))) (unique vs))))"

section \<open>The script\<close>

text \<open>
  \<^verbatim>\<open>pd.read_excel(file, engine="openpyxl", header=0)\<close>: the parser raises on a file
  it cannot read; otherwise the frame has the sheet's header and its rows, labelled
  \<open>0, 1, 2, \<dots>\<close>.
\<close>

fun read_excel :: "xlsx \<Rightarrow> string + frame" where
  "read_excel (Corrupt msg) = Inl msg"
| "read_excel (Workbook header rs) = Inr \<lparr>columns = header, rows = enumerate 0 rs\<rparr>"

text \<open>
  \<^verbatim>\<open>load_data\<close>: the frame and its shape, or, when the parser raised, the run that
  \<^verbatim>\<open>st.error\<close> and \<^verbatim>\<open>st.stop()\<close> leave (\<open>Inl\<close>). The line
  \<^verbatim>\<open>return None, None\<close> after \<^verbatim>\<open>st.stop()\<close> is never reached.
\<close>

definition load_data :: "xlsx \<Rightarrow> run + (frame \<times> nat \<times> nat)" where
  "load_data file =
     (case read_excel file of
        Inr data \<Rightarrow> Inr (data, (length (rows data), length (columns data)))
      | Inl e \<Rightarrow> Inl ([St_error (''Error loading dataset: '' @ e)], Stopped))"

definition height_columns :: "string list \<Rightarrow> string list" where
  "height_columns cols = filter (\<lambda>c. contains ''height'' (lower c)) cols"

definition height_column_name :: "string list \<Rightarrow> string option" where
  "height_column_name cols = (case height_columns cols of [] \<Rightarrow> None | c # _ \<Rightarrow> Some c)"

definition cities :: "frame \<Rightarrow> string list" where
  "cities data = unique (map (\<lambda>x. city (snd x)) (rows data))"

definition filtered_data :: "frame \<Rightarrow> string option \<Rightarrow> irow list" where
  "filtered_data data sel = filter (\<lambda>x. Some (city (snd x)) = sel) (rows data)"

text \<open>
  The two renames change labels only. The rows below keep their fields, so the script's
  later reads of \<^verbatim>\<open>'Name'\<close>, \<^verbatim>\<open>'Location'\<close>, \<^verbatim>\<open>'Height'\<close>, \<^verbatim>\<open>'latitude'\<close> and
  \<^verbatim>\<open>'longitude'\<close> are reads of \<open>name\<close>, \<open>city\<close>, the height column, \<open>latitude\<close> and
  \<open>longitude\<close>; the renamed headers say which labels exist.
\<close>

definition filtered_columns :: "string list \<Rightarrow> string list" where
  "filtered_columns cols =
     rename [(''location.latitude'', ''latitude''), (''location.longitude'', ''longitude'')] cols"

definition sorted_columns :: "string \<Rightarrow> string list \<Rightarrow> string list" where
  "sorted_columns h cols =
     rename [(''name'', ''Name''), (''location.city'', ''Location''), (h, ''Height'')]
       (filtered_columns cols)"

definition columns_to_display :: "string list" where
  "columns_to_display = [''Name'', ''Location'', ''Height'']"

definition sorted_data :: "string option \<Rightarrow> bool \<Rightarrow> irow list \<Rightarrow> irow list" where
  "sorted_data hcol ascending fd =
     (case hcol of Some h \<Rightarrow> sort_values h ascending fd | None \<Rightarrow> fd)"

definition city_group :: "string \<Rightarrow> frame \<Rightarrow> (string \<times> rat option) list" where
  "city_group h data = groupby_mean h (rows data)"

definition tallest_skyscraper :: "string \<Rightarrow> irow list \<Rightarrow> py_error + irow" where
  "tallest_skyscraper h fd =
     (case idxmax (map (\<lambda>x. (fst x, col h x)) fd) of
        Inl e \<Rightarrow> Inl e
      | Inr l \<Rightarrow> loc fd l)"

definition filtered_by_height :: "string \<Rightarrow> int \<Rightarrow> irow list \<Rightarrow> irow list" where
  "filtered_by_height h m sd = filter (\<lambda>x. of_int m \<le> col h x) sd"

definition top_cities :: "frame \<Rightarrow> (string \<times> nat) list" where
  "top_cities data = take 10 (value_counts (map (\<lambda>x. city (snd x)) (rows data)))"

text \<open>Lines 88 to 107: the sorted table, or the warning.\<close>

definition sort_section :: "string list \<Rightarrow> string option \<Rightarrow> ui \<Rightarrow> irow list \<Rightarrow> run" where
  "sort_section cols hcol u sd =
     (case hcol of
        Some h \<Rightarrow>
          seq (emit [Write_caption (selected_city u) (sort_order u)])
            (if set columns_to_display \<subseteq> set (sorted_columns h cols)
             then emit [Write_table columns_to_display sd]
             else raise (KeyError ''columns_to_display''))
      | None \<Rightarrow> emit [Warning ''Height column not found, skipping sorting.''])"

text \<open>Lines 109 to 117: the average height of each city, over the whole table.\<close>

definition group_section :: "string option \<Rightarrow> frame \<Rightarrow> run" where
  "group_section hcol data =
     (case hcol of
        Some h \<Rightarrow>
          emit [Subheader ''Average Height of Skyscrapers by City'',
                Write_city_group (city_group h data)]
      | None \<Rightarrow> emit [])"

text \<open>Lines 123 to 178: the highlights table of the selected city.\<close>

definition highlights_section :: "string list \<Rightarrow> string option \<Rightarrow> irow list \<Rightarrow> run" where
  "highlights_section cols hcol fd =
     seq (emit [Subheader ''Key Highlights''])
       (case hcol of
          Some h \<Rightarrow>
            (if fd \<noteq> [] then
               (case tallest_skyscraper h fd of
                  Inl e \<Rightarrow> raise e
                | Inr t \<Rightarrow>
                    (if ''name'' \<in> set (filtered_columns cols)
                     then emit [Highlights (length fd) (name (snd t)) (col h t)
                                  (mean (map (col h) fd))]
                     else raise (KeyError ''name'')))
             else emit [Warning ''No data available for the selected city.''])
        | None \<Rightarrow> emit [Warning ''No data available for the selected city.''])"

text \<open>Lines 180 to 239: the slider, the map, the histogram and the sample lines.\<close>

definition map_section :: "ui \<Rightarrow> irow list \<Rightarrow> run" where
  "map_section u fbh =
     seq (emit [Subheader ''Enhanced Map of Skyscrapers''])
       (if fbh \<noteq> [] then
          emit [Pydeck_chart fbh
                  (mean (List.map_filter (\<lambda>x. latitude (snd x)) fbh))
                  (mean (List.map_filter (\<lambda>x. longitude (snd x)) fbh))]
        else emit [Warning_no_rows (min_height u) (selected_city u)])"

definition table_section :: "string \<Rightarrow> ui \<Rightarrow> irow list \<Rightarrow> run" where
  "table_section h u fbh =
     seq (emit [Header (selected_city u) (min_height u)])
       (if fbh \<noteq> [] then
          emit [Expander_write fbh,
                Subheader ''Height Distribution of Filtered Skyscrapers'',
                Pyplot_hist 10 (map (col h) fbh)]
        else emit [])"

definition sample_section :: "string \<Rightarrow> irow list \<Rightarrow> run" where
  "sample_section h fbh =
     seq (emit [Subheader ''Sample Skyscraper Data''])
       (emit (map (\<lambda>x. Write_sample (fst x + 1) (name (snd x)) (col h x)) (take 5 fbh)))"

definition height_section :: "string option \<Rightarrow> ui \<Rightarrow> irow list \<Rightarrow> irow list \<Rightarrow> run" where
  "height_section hcol u fd sd =
     (case hcol of
        Some h \<Rightarrow>
          (if fd \<noteq> [] then
             (case max_list (map (col h) fd) of
                None \<Rightarrow> raise (ValueError ''cannot convert float NaN to integer'')
              | Some hmax \<Rightarrow>
                  seq (emit [Sidebar_subheader ''Filter by Height'',
                             Slider ''Minimum Height (m):'' 0 (py_int hmax) 100])
                    (seq (map_section u (filtered_by_height h (min_height u) sd))
                       (seq (table_section h u (filtered_by_height h (min_height u) sd))
                          (sample_section h (filtered_by_height h (min_height u) sd)))))
           else emit [])
      | None \<Rightarrow> emit [])"

text \<open>Lines 243 to 271: the pie chart, from the table as line 59 left it, when the
  script has one.\<close>

definition pie_section :: "frame option \<Rightarrow> run" where
  "pie_section d =
     (case d of
        Some data \<Rightarrow>
          (if rows data \<noteq> [] then
             seq (emit [Subheader ''Distribution of Skyscrapers by City''])
               (if ''location.city'' \<in> set (columns data)
                then emit [Pyplot_pie (top_cities data)]
                else emit [Warning '''location.city' column not found in the dataset.''])
           else emit [Warning ''Data is not defined or empty.''])
      | None \<Rightarrow> emit [Warning ''Data is not defined or empty.''])"

text \<open>
  Lines 55 to 239, for a loaded frame. \<^verbatim>\<open>dropna\<close> and the read of
  \<^verbatim>\<open>'location.city'\<close> raise \<^verbatim>\<open>KeyError\<close> on a header without their labels.
\<close>

definition main_block :: "frame \<Rightarrow> nat \<times> nat \<Rightarrow> ui \<Rightarrow> run" where
  "main_block loaded data_summary u =
     seq (emit [Sidebar_write (fst data_summary) (snd data_summary)])
       (if \<not> set [''location.latitude'', ''location.longitude''] \<subseteq> set (columns loaded)
        then raise (KeyError ''location.latitude, location.longitude'')
        else
          let data = dropna loaded;
              hcol = height_column_name (columns data)
          in seq (emit (case hcol of
                          None \<Rightarrow> [Sidebar_error ''No column containing 'height' found!'']
                        | Some h \<Rightarrow> []))
               (if ''location.city'' \<notin> set (columns data)
                then raise (KeyError ''location.city'')
                else
                  let fd = filtered_data data (selected_city u);
                      sd = sorted_data hcol (sort_order u = ''Ascending'') fd
                  in seq (emit [Selectbox ''Select a city:'' (cities data),
                                Radio ''Sort skyscrapers by height:''
                                  [''Ascending'', ''Descending'']])
                       (seq (sort_section (columns data) hcol u sd)
                          (seq (group_section hcol data)
                             (seq (emit (if fd \<noteq> [] then [Balloons] else []))
                                (seq (highlights_section (columns data) hcol fd)
                                   (height_section hcol u fd sd)))))))"

text \<open>The whole script, for what the upload widget holds and what the user picked.\<close>

definition script :: "xlsx option \<Rightarrow> ui \<Rightarrow> run" where
  "script uploaded_file u =
     seq (emit [Markdown_style, Title ''Skyscrapers Around the United States'',
                File_uploader ''Upload your Excel file''])
       (case uploaded_file of
          Some file \<Rightarrow>
            (case load_data file of
               Inl halted \<Rightarrow> halted
             | Inr (data, data_summary) \<Rightarrow>
                 seq (main_block data data_summary u) (pie_section (Some (dropna data))))
        | None \<Rightarrow>
            seq (emit [Warning ''Please upload a dataset to begin.'']) (pie_section None))"

section \<open>Notions used to state the properties\<close>

text \<open>The table as line 59 leaves it, for a sheet that parsed.\<close>

definition full_table :: "string list \<Rightarrow> row list \<Rightarrow> frame" where
  "full_table cols rs = dropna \<lparr>columns = cols, rows = enumerate 0 rs\<rparr>"

text \<open>The rows that an element puts on the page as rows: the sorted table, the map
  layer and the table in the expander.\<close>

fun shown_rows :: "element \<Rightarrow> irow list" where
  "shown_rows (Write_table cs xs) = xs"
| "shown_rows (Pydeck_chart xs la lo) = xs"
| "shown_rows (Expander_write xs) = xs"
| "shown_rows e = []"

text \<open>What a sample line prints: the label plus one, the name and the height.\<close>

fun sample_of :: "element \<Rightarrow> (nat \<times> string \<times> rat) option" where
  "sample_of (Write_sample i n v) = Some (i, n, v)"
| "sample_of e = None"


text \<open>
  A valid upload has the four labels the script reads, and no rename gives one label to
  two columns (pandas answers a read of such a label with a frame, not with a column;
  sheets like that are outside this development).
\<close>

definition required_columns :: "string list" where
  "required_columns =
     [''name'', ''location.city'', ''location.latitude'', ''location.longitude'']"

definition valid_upload :: "string list \<Rightarrow> bool" where
  "valid_upload cols \<longleftrightarrow>
     set required_columns \<subseteq> set cols \<and>
     distinct (case height_column_name cols of
                 None \<Rightarrow> filtered_columns cols
               | Some h \<Rightarrow> sorted_columns h cols)"

subsection \<open>Sample sheets\<close>

text \<open>A row whose numeric columns all hold \<open>h\<close>, for sheets with one numeric column.\<close>

definition building :: "string \<Rightarrow> string \<Rightarrow> rat option \<Rightarrow> rat option \<Rightarrow> rat \<Rightarrow> row" where
  "building n c la lo h =
     \<lparr>name = n, city = c, latitude = la, longitude = lo, cell = (\<lambda>l. h)\<rparr>"

definition sheet_header :: "string list" where
  "sheet_header =
     [''name'', ''location.city'', ''location.latitude'', ''location.longitude'',
      ''statistics.height'']"

definition floors_header :: "string list" where
  "floors_header =
     [''name'', ''location.city'', ''location.latitude'', ''location.longitude'',
      ''statistics.floors'']"

definition three_rows :: "row list" where
  "three_rows =
     [building ''A'' ''NYC'' (Some 40) (Some (-74)) 300,
      building ''B'' ''NYC'' (Some 41) (Some (-73)) 100,
      building ''C'' ''LA'' (Some 34) (Some (-118)) 200]"


definition blank_rows :: "row list" where
  "blank_rows =
     [building ''A'' ''NYC'' None (Some (-74)) 300,
      building ''B'' ''NYC'' (Some 41) (Some (-73)) 100]"

definition other_blank_rows :: "row list" where
  "other_blank_rows =
     [building ''Z'' ''LA'' (Some 40) None 900,
      building ''B'' ''NYC'' (Some 41) (Some (-73)) 100]"




definition nyc_ascending :: ui where
  "nyc_ascending = \<lparr>selected_city = Some ''NYC'', sort_order = ''Ascending'', min_height = 100\<rparr>"

section \<open>Running the script\<close>

lemma seq_emit: "seq (emit xs) r = (xs @ fst r, snd r)"
  by (simp add: seq_def emit_def)

lemma fst_emit: "fst (emit xs) = xs" and snd_emit: "snd (emit xs) = Done"
  by (simp_all add: emit_def)

lemma columns_dropna: "columns (dropna d) = columns d"
  by (simp add: dropna_def)

lemma set_rows_dropna:
  "set (rows (dropna d)) = {x \<in> set (rows d). latitude (snd x) \<noteq> None \<and> longitude (snd x) \<noteq> None}"
  by (auto simp: dropna_def)

lemma set_filtered_data: "set (filtered_data d sel) \<subseteq> set (rows d)"
  by (auto simp: filtered_data_def)

lemma set_sort_values: "set (sort_values c a xs) = set xs"
  by (simp add: sort_values_def)

lemma set_sorted_data: "set (sorted_data hcol a fd) = set fd"
  by (simp add: sorted_data_def set_sort_values split: option.splits)

lemma set_filtered_by_height: "set (filtered_by_height h m sd) \<subseteq> set sd"
  by (auto simp: filtered_by_height_def)

lemma all_seq:
  "list_all P (fst a) \<Longrightarrow> list_all P (fst b) \<Longrightarrow> list_all P (fst (seq a b))"
  by (auto simp: seq_def split: status.splits)

lemma all_emit: "list_all P xs \<Longrightarrow> list_all P (fst (emit xs))"
  by (simp add: emit_def)

lemma all_raise: "list_all P (fst (raise e))"
  by (simp add: raise_def)

lemma shown_sort_section:
  "set sd \<subseteq> S \<Longrightarrow> list_all (\<lambda>e. set (shown_rows e) \<subseteq> S) (fst (sort_section cols hcol u sd))"
  unfolding sort_section_def
  by (auto intro!: all_seq all_emit all_raise split: option.splits)

lemma shown_group_section:
  "list_all (\<lambda>e. set (shown_rows e) \<subseteq> S) (fst (group_section hcol d))"
  unfolding group_section_def
  by (auto intro!: all_seq all_emit all_raise split: option.splits)

lemma shown_highlights_section:
  "list_all (\<lambda>e. set (shown_rows e) \<subseteq> S) (fst (highlights_section cols hcol fd))"
  unfolding highlights_section_def
  by (auto intro!: all_seq all_emit all_raise split: option.splits sum.splits)

lemma shown_map_section:
  "set fbh \<subseteq> S \<Longrightarrow> list_all (\<lambda>e. set (shown_rows e) \<subseteq> S) (fst (map_section u fbh))"
  unfolding map_section_def
  by (auto intro!: all_seq all_emit all_raise)

lemma shown_table_section:
  "set fbh \<subseteq> S \<Longrightarrow> list_all (\<lambda>e. set (shown_rows e) \<subseteq> S) (fst (table_section h u fbh))"
  unfolding table_section_def
  by (auto intro!: all_seq all_emit all_raise)

lemma shown_sample_section:
  "list_all (\<lambda>e. set (shown_rows e) \<subseteq> S) (fst (sample_section h fbh))"
  unfolding sample_section_def
  by (intro all_seq all_emit) (simp_all add: list_all_iff)

lemma shown_height_section:
  assumes "set sd \<subseteq> S"
  shows "list_all (\<lambda>e. set (shown_rows e) \<subseteq> S) (fst (height_section hcol u fd sd))"
proof -
  have "set (filtered_by_height h (min_height u) sd) \<subseteq> S" for h
    using assms set_filtered_by_height by blast
  then show ?thesis
    unfolding height_section_def
    by (auto intro!: all_seq all_emit all_raise shown_map_section shown_table_section
          shown_sample_section split: option.splits)
qed

lemma shown_pie_section:
  "list_all (\<lambda>e. set (shown_rows e) \<subseteq> S) (fst (pie_section d))"
  unfolding pie_section_def
  by (auto intro!: all_seq all_emit all_raise split: option.splits)

lemma shown_main_block:
  "list_all (\<lambda>e. set (shown_rows e) \<subseteq> set (rows (dropna L))) (fst (main_block L s u))"
proof -
  have "x \<in> set (filtered_data d sel) \<Longrightarrow> x \<in> set (rows d)" for x d sel
    using set_filtered_data by blast
  then show ?thesis
    unfolding main_block_def Let_def
    by (auto intro!: all_seq all_emit all_raise shown_sort_section shown_group_section
          shown_highlights_section shown_height_section simp: set_sorted_data
          split: option.splits)
qed

lemma shown_script:
  "list_all (\<lambda>e. set (shown_rows e) \<subseteq> set (rows (full_table cols rs)))
     (fst (script (Some (Workbook cols rs)) u))"
  unfolding script_def load_data_def full_table_def
  by (auto intro!: all_seq all_emit all_raise shown_main_block shown_pie_section)


lemma seq_emit_emit: "seq (emit xs) (emit ys) = emit (xs @ ys)"
  by (simp add: seq_def emit_def)

lemma valid_required:
  assumes "valid_upload cols"
  shows "''name'' \<in> set cols" "''location.city'' \<in> set cols"
    "''location.latitude'' \<in> set cols" "''location.longitude'' \<in> set cols"
  using assms by (simp_all add: valid_upload_def required_columns_def)

lemma height_column_name_Some:
  assumes "height_column_name cols = Some h"
  shows "h \<in> set cols \<and> contains ''height'' (lower h)"
proof -
  obtain t where "height_columns cols = h # t"
    using assms by (auto simp: height_column_name_def split: list.splits)
  then have "h \<in> set (height_columns cols)" by simp
  then show ?thesis by (simp add: height_columns_def)
qed

lemma height_column_name_mem: "height_column_name cols = Some h \<Longrightarrow> h \<in> set cols"
  using height_column_name_Some by blast

lemma in_rename: "c \<in> set cols \<Longrightarrow> map_of m c = Some c' \<Longrightarrow> c' \<in> set (rename m cols)"
  unfolding rename_def by force

lemma in_rename_same: "c \<in> set cols \<Longrightarrow> map_of m c = None \<Longrightarrow> c \<in> set (rename m cols)"
  unfolding rename_def by force

lemma name_in_filtered: "''name'' \<in> set cols \<Longrightarrow> ''name'' \<in> set (filtered_columns cols)"
  unfolding filtered_columns_def by (rule in_rename_same) simp_all

lemma city_in_filtered:
  "''location.city'' \<in> set cols \<Longrightarrow> ''location.city'' \<in> set (filtered_columns cols)"
  unfolding filtered_columns_def by (rule in_rename_same) simp_all

lemma height_not_fixed:
  "height_column_name cols = Some h \<Longrightarrow> contains ''height'' (lower h)"
  using height_column_name_Some by blast

lemma height_in_filtered:
  assumes "height_column_name cols = Some h"
  shows "h \<in> set (filtered_columns cols)"
proof -
  have "h \<noteq> ''location.latitude''" "h \<noteq> ''location.longitude''"
    using height_not_fixed [OF assms] by (auto simp: lower_def lower_char_def)
  then show ?thesis
    unfolding filtered_columns_def
    using height_column_name_mem [OF assms] by (intro in_rename_same) simp_all
qed

lemma display_columns_present:
  assumes "valid_upload cols" "height_column_name cols = Some h"
  shows "set columns_to_display \<subseteq> set (sorted_columns h cols)"
proof -
  have hn: "h \<noteq> ''name''" "h \<noteq> ''location.city''"
    using height_not_fixed [OF assms(2)] by (auto simp: lower_def lower_char_def)
  have "''Name'' \<in> set (sorted_columns h cols)"
    unfolding sorted_columns_def
    by (rule in_rename [OF name_in_filtered [OF valid_required(1) [OF assms(1)]]]) simp
  moreover have "''Location'' \<in> set (sorted_columns h cols)"
    unfolding sorted_columns_def
    by (rule in_rename [OF city_in_filtered [OF valid_required(2) [OF assms(1)]]]) simp
  moreover have "''Height'' \<in> set (sorted_columns h cols)"
    unfolding sorted_columns_def
    using hn by (intro in_rename [OF height_in_filtered [OF assms(2)]]) simp
  ultimately show ?thesis by (simp add: columns_to_display_def)
qed


text \<open>
  Claim C6. When the parser raises on the uploaded file, \<^verbatim>\<open>load_data\<close> shows the error
  and halts the script: the page holds the style, the title, the upload widget and the
  error, and nothing else; no row count, table, map or chart, and no pie chart either.
\<close>

theorem parse_failure_halts:
  assumes "read_excel file = Inl msg"
  shows "script (Some file) u =
           ([Markdown_style, Title ''Skyscrapers Around the United States'',
             File_uploader ''Upload your Excel file'',
             St_error (''Error loading dataset: '' @ msg)], Stopped)"
  using assms by (cases "file") (simp_all add: script_def load_data_def seq_def emit_def)

theorem parse_failure_halts_witness:
  "script (Some (Corrupt ''File is not a zip file'')) nyc_ascending =
     ([Markdown_style, Title ''Skyscrapers Around the United States'',
       File_uploader ''Upload your Excel file'',
       St_error (''Error loading dataset: '' @ ''File is not a zip file'')], Stopped)"
  using parse_failure_halts [of "Corrupt ''File is not a zip file''" "''File is not a zip file''" nyc_ascending]
  by simp

lemma script_workbook:
  "script (Some (Workbook cols rs)) u =
     seq (emit [Markdown_style, Title ''Skyscrapers Around the United States'',
                File_uploader ''Upload your Excel file''])
       (seq (main_block \<lparr>columns = cols, rows = enumerate 0 rs\<rparr> (length rs, length cols) u)
          (pie_section (Some (full_table cols rs))))"
  by (simp add: script_def load_data_def full_table_def)

lemma main_block_cong:
  assumes "dropna L = dropna L'"
  shows "main_block L s u = main_block L' s u"
proof -
  have "columns L = columns L'"
    using arg_cong [OF assms, of columns] by (simp add: columns_dropna)
  then show ?thesis
    unfolding main_block_def by (simp add: assms)
qed

text \<open>
  Claim C1. For a valid upload, every row that the page shows (in the sorted table, on
  the map, in the expander) has both coordinates; and the page is computed from the table
  without the rows that lack one: two sheets of the same size that agree after
  \<^verbatim>\<open>dropna\<close> give the same page, whatever the dropped rows hold.
\<close>

theorem null_coordinates_never_shown:
  assumes "valid_upload cols"
  shows "(\<forall>e \<in> set (fst (script (Some (Workbook cols rs)) u)).
            \<forall>x \<in> set (shown_rows e). latitude (snd x) \<noteq> None \<and> longitude (snd x) \<noteq> None)
       \<and> (\<forall>rs'. length rs' = length rs \<and> full_table cols rs' = full_table cols rs
              \<longrightarrow> script (Some (Workbook cols rs')) u = script (Some (Workbook cols rs)) u)"
proof (rule conjI)
  show "\<forall>e \<in> set (fst (script (Some (Workbook cols rs)) u)).
          \<forall>x \<in> set (shown_rows e). latitude (snd x) \<noteq> None \<and> longitude (snd x) \<noteq> None"
  proof (intro ballI)
    fix e x
    assume "e \<in> set (fst (script (Some (Workbook cols rs)) u))" and "x \<in> set (shown_rows e)"
    then have "x \<in> set (rows (full_table cols rs))"
      using shown_script [of cols rs u] by (auto simp: list_all_iff)
    then show "latitude (snd x) \<noteq> None \<and> longitude (snd x) \<noteq> None"
      by (simp add: full_table_def set_rows_dropna)
  qed
next
  show "\<forall>rs'. length rs' = length rs \<and> full_table cols rs' = full_table cols rs
          \<longrightarrow> script (Some (Workbook cols rs')) u = script (Some (Workbook cols rs)) u"
  proof (intro allI impI)
  fix rs'
  assume h: "length rs' = length rs \<and> full_table cols rs' = full_table cols rs"
  then have "main_block \<lparr>columns = cols, rows = enumerate 0 rs'\<rparr> (length rs', length cols) u
           = main_block \<lparr>columns = cols, rows = enumerate 0 rs\<rparr> (length rs, length cols) u"
    using main_block_cong [of "\<lparr>columns = cols, rows = enumerate 0 rs'\<rparr>"
        "\<lparr>columns = cols, rows = enumerate 0 rs\<rparr>" "(length rs, length cols)" u]
    by (simp add: full_table_def)
  with h show "script (Some (Workbook cols rs')) u = script (Some (Workbook cols rs)) u"
    by (simp add: script_workbook)
  qed
qed

lemma height_sheet_header: "height_column_name sheet_header = Some ''statistics.height''"
  by (simp add: sheet_header_def height_column_name_def height_columns_def lower_def
        lower_char_def)

lemma height_floors_header: "height_column_name floors_header = None"
  by (simp add: floors_header_def height_column_name_def height_columns_def lower_def
        lower_char_def)

lemma valid_sheet_header: "valid_upload sheet_header"
  unfolding valid_upload_def height_sheet_header
  by (simp add: sheet_header_def required_columns_def sorted_columns_def filtered_columns_def
        rename_def)

lemma valid_floors_header: "valid_upload floors_header"
  unfolding valid_upload_def height_floors_header
  by (simp add: floors_header_def required_columns_def filtered_columns_def rename_def)

lemma full_table_blank_rows:
  "full_table sheet_header other_blank_rows = full_table sheet_header blank_rows"
  by (simp add: full_table_def dropna_def blank_rows_def other_blank_rows_def building_def)

theorem null_coordinates_never_shown_witness:
  "valid_upload sheet_header
   \<and> list_all (\<lambda>e. list_all (\<lambda>x. latitude (snd x) \<noteq> None \<and> longitude (snd x) \<noteq> None)
                    (shown_rows e))
       (fst (script (Some (Workbook sheet_header blank_rows)) nyc_ascending))
   \<and> length other_blank_rows = length blank_rows
   \<and> full_table sheet_header other_blank_rows = full_table sheet_header blank_rows
   \<and> script (Some (Workbook sheet_header other_blank_rows)) nyc_ascending
       = script (Some (Workbook sheet_header blank_rows)) nyc_ascending"
proof -
  note t = null_coordinates_never_shown [OF valid_sheet_header, of blank_rows nyc_ascending]
  have len: "length other_blank_rows = length blank_rows"
    by (simp add: blank_rows_def other_blank_rows_def)
  from t len full_table_blank_rows
  have "script (Some (Workbook sheet_header other_blank_rows)) nyc_ascending
       = script (Some (Workbook sheet_header blank_rows)) nyc_ascending"
    by blast
  moreover from t
  have "list_all (\<lambda>e. list_all (\<lambda>x. latitude (snd x) \<noteq> None \<and> longitude (snd x) \<noteq> None)
                    (shown_rows e))
          (fst (script (Some (Workbook sheet_header blank_rows)) nyc_ascending))"
    unfolding list_all_iff by blast
  ultimately show ?thesis
    using len full_table_blank_rows valid_sheet_header by blast
qed


section \<open>The elements of the page\<close>

lemma distinct_full_table: "distinct (map fst (rows (full_table cols rs)))"
  by (simp add: full_table_def dropna_def distinct_map_filter)

lemma distinct_filtered_data:
  "distinct (map fst (rows d)) \<Longrightarrow> distinct (map fst (filtered_data d sel))"
  by (simp add: filtered_data_def distinct_map_filter)

lemma max_list_Max: "vs \<noteq> [] \<Longrightarrow> max_list vs = Some (Max (set vs))"
  by (cases vs) (simp_all add: Max.set_eq_fold [symmetric])

lemma find_first:
  "\<forall>y \<in> set ys. \<not> P y \<Longrightarrow> P x \<Longrightarrow> find P (ys @ x # zs) = Some x"
  by (induction ys) simp_all

lemma tallest_first_max:
  assumes "distinct (map fst fd)" and "fd \<noteq> []"
  shows "\<exists>pre t post. fd = pre @ t # post \<and> tallest_skyscraper h fd = Inr t
           \<and> (\<forall>x \<in> set pre. col h x < col h t) \<and> (\<forall>x \<in> set post. col h x \<le> col h t)"
proof -
  define m where "m = Max (set (map (col h) fd))"
  have ne: "map (col h) fd \<noteq> []" using assms(2) by simp
  have "m \<in> set (map (col h) fd)" unfolding m_def using ne by (intro Max_in) simp_all
  then have "\<exists>x \<in> set fd. col h x = m" by auto
  then obtain pre t post where
    split: "fd = pre @ t # post" and t: "col h t = m" and pre: "\<forall>y \<in> set pre. col h y \<noteq> m"
    using split_list_first_prop [of fd "\<lambda>x. col h x = m"] by blast
  have le: "col h x \<le> m" if "x \<in> set fd" for x
    unfolding m_def using that by (intro Max_ge) simp_all
  have "\<forall>p \<in> set (map (\<lambda>x. (fst x, col h x)) pre). \<not> snd p = m"
    using pre by simp
  then have "find (\<lambda>p. snd p = m)
               (map (\<lambda>x. (fst x, col h x)) pre @ (fst t, col h t) # map (\<lambda>x. (fst x, col h x)) post)
             = Some (fst t, col h t)"
    using t by (intro find_first) simp_all
  then have "find (\<lambda>p. snd p = m) (map (\<lambda>x. (fst x, col h x)) fd) = Some (fst t, col h t)"
    by (simp add: split)
  moreover have "max_list (map snd (map (\<lambda>x. (fst x, col h x)) fd)) = Some m"
    using max_list_Max [OF ne] by (simp add: m_def comp_def)
  ultimately have "idxmax (map (\<lambda>x. (fst x, col h x)) fd) = Inr (fst t)"
    by (simp add: idxmax_def)
  moreover have "distinct (map fst (pre @ t # post))"
    using assms(1) by (simp only: split)
  then have "fst t \<notin> fst ` set pre" by auto
  then have "\<forall>y \<in> set pre. \<not> fst y = fst t"
    by (metis imageI)
  then have "find (\<lambda>x. fst x = fst t) (pre @ t # post) = Some t"
    by (intro find_first) simp_all
  ultimately have "tallest_skyscraper h fd = Inr t"
    by (simp add: tallest_skyscraper_def loc_def split)
  moreover have "\<forall>x \<in> set pre. col h x < col h t"
  proof
    fix x assume "x \<in> set pre"
    then have "col h x \<noteq> m" "col h x \<le> m" using pre le by (simp_all add: split)
    then show "col h x < col h t" using t by simp
  qed
  moreover have "\<forall>x \<in> set post. col h x \<le> col h t"
    using le t by (simp add: split)
  ultimately show ?thesis using split by blast
qed


lemma seq_emit_seq_emit: "seq (emit xs) (seq (emit ys) r) = seq (emit (xs @ ys)) r"
  by (simp add: seq_def emit_def)

lemma run_emit: "snd r = Done \<Longrightarrow> r = emit (fst r)"
  by (cases r) (simp add: emit_def)

lemma sort_section_height:
  assumes "valid_upload cols" and "height_column_name cols = Some h"
  shows "sort_section cols (Some h) u sd =
           emit [Write_caption (selected_city u) (sort_order u),
                 Write_table columns_to_display sd]"
  using display_columns_present [OF assms]
  by (simp add: sort_section_def seq_emit_emit)

lemma highlights_section_height:
  assumes "''name'' \<in> set cols" and "fd \<noteq> []" and "tallest_skyscraper h fd = Inr t"
  shows "highlights_section cols (Some h) fd =
           emit [Subheader ''Key Highlights'',
                 Highlights (length fd) (name (snd t)) (col h t) (mean (map (col h) fd))]"
  using assms name_in_filtered [OF assms(1)]
  by (simp add: highlights_section_def seq_emit_emit)


lemma highlights_section_no_height:
  "highlights_section cols None fd =
     emit [Subheader ''Key Highlights'', Warning ''No data available for the selected city.'']"
  by (simp add: highlights_section_def seq_emit_emit)

lemma map_section_done: "snd (map_section u fbh) = Done"
  by (simp add: map_section_def seq_emit snd_emit)

lemma table_section_done: "snd (table_section h u fbh) = Done"
  by (simp add: table_section_def seq_emit snd_emit)

lemma sample_section_emit:
  "sample_section h fbh =
     emit (Subheader ''Sample Skyscraper Data''
           # map (\<lambda>x. Write_sample (fst x + 1) (name (snd x)) (col h x)) (take 5 fbh))"
  by (simp add: sample_section_def seq_emit_emit)

lemma sample_section_done: "snd (sample_section h fbh) = Done"
  by (simp add: sample_section_emit snd_emit)

lemma seq_done3:
  "snd a = Done \<Longrightarrow> snd b = Done \<Longrightarrow> snd c = Done
     \<Longrightarrow> seq a (seq b c) = emit (fst a @ fst b @ fst c)"
  by (simp add: seq_def emit_def)

lemma height_section_height:
  assumes "fd \<noteq> []"
  shows "height_section (Some h) u fd sd =
           emit ([Sidebar_subheader ''Filter by Height'',
                  Slider ''Minimum Height (m):'' 0 (py_int (Max (set (map (col h) fd)))) 100]
                 @ fst (map_section u (filtered_by_height h (min_height u) sd))
                 @ fst (table_section h u (filtered_by_height h (min_height u) sd))
                 @ fst (sample_section h (filtered_by_height h (min_height u) sd)))"
proof -
  have m: "max_list (map (col h) fd) = Some (Max (set (map (col h) fd)))"
    using assms by (intro max_list_Max) simp
  have "seq (map_section u fbh) (seq (table_section h u fbh) (sample_section h fbh))
        = emit (fst (map_section u fbh) @ fst (table_section h u fbh) @ fst (sample_section h fbh))"
    for fbh
    by (rule seq_done3 [OF map_section_done table_section_done sample_section_done])
  then show ?thesis
    using assms m by (simp add: height_section_def seq_emit_emit del: max_list.simps set_map)
qed

lemma pie_section_done: "snd (pie_section d) = Done"
  by (simp add: pie_section_def seq_emit snd_emit split: option.splits)

lemma pie_section_rows:
  assumes "rows d \<noteq> []" and "''location.city'' \<in> set (columns d)"
  shows "pie_section (Some d) =
           emit [Subheader ''Distribution of Skyscrapers by City'', Pyplot_pie (top_cities d)]"
  using assms by (simp add: pie_section_def seq_emit_emit)

lemma pie_section_empty:
  "rows d = [] \<Longrightarrow> pie_section (Some d) = emit [Warning ''Data is not defined or empty.'']"
  by (simp add: pie_section_def)

lemma columns_full_table: "columns (full_table cols rs) = cols"
  by (simp add: full_table_def dropna_def)

lemma main_block_valid:
  assumes "valid_upload cols"
  shows "main_block \<lparr>columns = cols, rows = enumerate 0 rs\<rparr> s u =
           seq (emit ([Sidebar_write (fst s) (snd s)]
                      @ (case height_column_name cols of
                           None \<Rightarrow> [Sidebar_error ''No column containing 'height' found!'']
                         | Some h \<Rightarrow> [])
                      @ [Selectbox ''Select a city:'' (cities (full_table cols rs)),
                         Radio ''Sort skyscrapers by height:'' [''Ascending'', ''Descending'']]))
             (seq (sort_section cols (height_column_name cols) u
                     (sorted_data (height_column_name cols) (sort_order u = ''Ascending'')
                        (filtered_data (full_table cols rs) (selected_city u))))
                (seq (group_section (height_column_name cols) (full_table cols rs))
                   (seq (emit (if filtered_data (full_table cols rs) (selected_city u) \<noteq> []
                               then [Balloons] else []))
                      (seq (highlights_section cols (height_column_name cols)
                              (filtered_data (full_table cols rs) (selected_city u)))
                         (height_section (height_column_name cols) u
                            (filtered_data (full_table cols rs) (selected_city u))
                            (sorted_data (height_column_name cols) (sort_order u = ''Ascending'')
                               (filtered_data (full_table cols rs) (selected_city u))))))))"
  using valid_required [OF assms]
  by (simp add: main_block_def Let_def columns_dropna full_table_def seq_emit_seq_emit
        del: enumerate_simps)



lemma rows_nonempty_of_filtered: "filtered_data d sel \<noteq> [] \<Longrightarrow> rows d \<noteq> []"
  by (auto simp: filtered_data_def)

lemma page_height:
  assumes "valid_upload cols" and "height_column_name cols = Some h"
    and "filtered_data (full_table cols rs) (selected_city u) = fd" and "fd \<noteq> []"
    and "tallest_skyscraper h fd = Inr t"
    and "sorted_data (Some h) (sort_order u = ''Ascending'') fd = sd"
    and "filtered_by_height h (min_height u) sd = fbh"
  shows "script (Some (Workbook cols rs)) u =
     emit ([Markdown_style, Title ''Skyscrapers Around the United States'',
            File_uploader ''Upload your Excel file'',
            Sidebar_write (length rs) (length cols),
            Selectbox ''Select a city:'' (cities (full_table cols rs)),
            Radio ''Sort skyscrapers by height:'' [''Ascending'', ''Descending''],
            Write_caption (selected_city u) (sort_order u),
            Write_table columns_to_display sd,
            Subheader ''Average Height of Skyscrapers by City'',
            Write_city_group (city_group h (full_table cols rs)),
            Balloons,
            Subheader ''Key Highlights'',
            Highlights (length fd) (name (snd t)) (col h t) (mean (map (col h) fd)),
            Sidebar_subheader ''Filter by Height'',
            Slider ''Minimum Height (m):'' 0 (py_int (Max (set (map (col h) fd)))) 100]
           @ fst (map_section u fbh) @ fst (table_section h u fbh) @ fst (sample_section h fbh)
           @ [Subheader ''Distribution of Skyscrapers by City'',
              Pyplot_pie (top_cities (full_table cols rs))])"
proof -
  have "rows (full_table cols rs) \<noteq> []"
    using assms(3,4) rows_nonempty_of_filtered by blast
  then have pie: "pie_section (Some (full_table cols rs)) =
      emit [Subheader ''Distribution of Skyscrapers by City'',
            Pyplot_pie (top_cities (full_table cols rs))]"
    using valid_required(2) [OF assms(1)] by (intro pie_section_rows) (simp_all add: columns_full_table)
  show ?thesis
    unfolding script_workbook main_block_valid [OF assms(1)] assms(2) assms(3) assms(6)
      sort_section_height [OF assms(1,2)] group_section_def
      highlights_section_height [OF valid_required(1) [OF assms(1)] assms(4,5)]
      height_section_height [OF assms(4)] assms(7) pie
    using assms(4) by (simp add: seq_emit_emit seq_emit_seq_emit del: set_map)
qed

lemma page_no_height:
  assumes "valid_upload cols" and "height_column_name cols = None"
  shows "script (Some (Workbook cols rs)) u =
     emit ([Markdown_style, Title ''Skyscrapers Around the United States'',
            File_uploader ''Upload your Excel file'',
            Sidebar_write (length rs) (length cols),
            Sidebar_error ''No column containing 'height' found!'',
            Selectbox ''Select a city:'' (cities (full_table cols rs)),
            Radio ''Sort skyscrapers by height:'' [''Ascending'', ''Descending''],
            Warning ''Height column not found, skipping sorting.'']
           @ (if filtered_data (full_table cols rs) (selected_city u) \<noteq> [] then [Balloons] else [])
           @ [Subheader ''Key Highlights'', Warning ''No data available for the selected city.'']
           @ fst (pie_section (Some (full_table cols rs))))"
proof -
  have pie: "pie_section (Some (full_table cols rs)) = emit (fst (pie_section (Some (full_table cols rs))))"
    by (rule run_emit [OF pie_section_done])
  show ?thesis
    unfolding script_workbook main_block_valid [OF assms(1)] assms(2)
      highlights_section_no_height
    apply (subst pie)
    apply (simp add: sort_section_def group_section_def height_section_def seq_emit_emit seq_emit_seq_emit)
    done
qed

section \<open>Sorting\<close>







section \<open>Highlights and slider\<close>

lemma tallest_of_upload:
  assumes "filtered_data (full_table cols rs) sel = fd" and "fd \<noteq> []"
  shows "\<exists>pre t post. fd = pre @ t # post \<and> tallest_skyscraper h fd = Inr t
           \<and> (\<forall>x \<in> set pre. col h x < col h t) \<and> (\<forall>x \<in> set post. col h x \<le> col h t)"
proof -
  have "distinct (map fst fd)"
    using distinct_filtered_data [OF distinct_full_table] assms(1) by blast
  then show ?thesis using assms(2) by (rule tallest_first_max)
qed





lemma filtered_three_rows:
  "filtered_data (full_table sheet_header three_rows) (selected_city nyc_ascending) =
     [(0, building ''A'' ''NYC'' (Some 40) (Some (-74)) 300),
      (1, building ''B'' ''NYC'' (Some 41) (Some (-73)) 100)]"
  by (simp add: filtered_data_def full_table_def dropna_def three_rows_def building_def
        nyc_ascending_def)





section \<open>The page as a whole\<close>





section \<open>Height filter and sample lines\<close>

lemma fst_map_section:
  "fst (map_section u fbh) =
     Subheader ''Enhanced Map of Skyscrapers''
     # (if fbh \<noteq> [] then
          [Pydeck_chart fbh (mean (List.map_filter (\<lambda>x. latitude (snd x)) fbh))
             (mean (List.map_filter (\<lambda>x. longitude (snd x)) fbh))]
        else [Warning_no_rows (min_height u) (selected_city u)])"
  by (simp add: map_section_def seq_emit fst_emit)

lemma fst_table_section:
  "fst (table_section h u fbh) =
     Header (selected_city u) (min_height u)
     # (if fbh \<noteq> [] then
          [Expander_write fbh, Subheader ''Height Distribution of Filtered Skyscrapers'',
           Pyplot_hist 10 (map (col h) fbh)]
        else [])"
  by (simp add: table_section_def seq_emit fst_emit)

lemma fst_sample_section:
  "fst (sample_section h fbh) =
     Subheader ''Sample Skyscraper Data''
     # map (\<lambda>x. Write_sample (fst x + 1) (name (snd x)) (col h x)) (take 5 fbh)"
  by (simp add: sample_section_emit fst_emit)

lemma sorted_sort_values:
  "sorted (map (col h) (sort_values h True fd))"
  "sorted (rev (map (col h) (sort_values h False fd)))"
  by (simp_all add: sort_values_def rev_map [symmetric])

lemma sorted_filtered_by_height:
  "sorted (map (col h) sd) \<Longrightarrow> sorted (map (col h) (filtered_by_height h m sd))"
  "sorted (rev (map (col h) sd)) \<Longrightarrow> sorted (rev (map (col h) (filtered_by_height h m sd)))"
proof -
  show "sorted (map (col h) sd) \<Longrightarrow> sorted (map (col h) (filtered_by_height h m sd))"
    by (simp add: filtered_by_height_def sorted_filter)
  assume "sorted (rev (map (col h) sd))"
  then have "sorted (map (col h) (rev sd))" by (simp add: rev_map)
  then have "sorted (map (col h) (filter (\<lambda>x. of_int m \<le> col h x) (rev sd)))"
    by (rule sorted_filter)
  then show "sorted (rev (map (col h) (filtered_by_height h m sd)))"
    by (simp add: filtered_by_height_def rev_map rev_filter)
qed

text \<open>
  Claim C9. The rows kept by the height filter are exactly the rows of the sorted set whose
  height is at least the chosen minimum, each as often as it occurs there, in the order
  the sorted set has them: heights ascending when the user picked "Ascending", descending
  otherwise. When any row is kept, this is the set that the map, the expander and the
  histogram are given.
\<close>

theorem filtered_by_height_exact:
  assumes "valid_upload cols" and "height_column_name cols = Some h"
    and "filtered_data (full_table cols rs) (selected_city u) = fd" and "fd \<noteq> []"
    and "sorted_data (Some h) (sort_order u = ''Ascending'') fd = sd"
    and "filtered_by_height h (min_height u) sd = fbh"
  shows "mset fbh = filter_mset (\<lambda>x. of_int (min_height u) \<le> col h x) (mset sd)
       \<and> subseq fbh sd
       \<and> (sort_order u = ''Ascending'' \<longrightarrow> sorted (map (col h) fbh))
       \<and> (sort_order u \<noteq> ''Ascending'' \<longrightarrow> sorted (rev (map (col h) fbh)))
       \<and> (fbh \<noteq> [] \<longrightarrow>
            Expander_write fbh \<in> set (fst (script (Some (Workbook cols rs)) u))
            \<and> Pyplot_hist 10 (map (col h) fbh) \<in> set (fst (script (Some (Workbook cols rs)) u))
            \<and> Pydeck_chart fbh (mean (List.map_filter (\<lambda>x. latitude (snd x)) fbh))
                 (mean (List.map_filter (\<lambda>x. longitude (snd x)) fbh))
               \<in> set (fst (script (Some (Workbook cols rs)) u)))"
proof (intro conjI impI)
  show "mset fbh = filter_mset (\<lambda>x. of_int (min_height u) \<le> col h x) (mset sd)"
    unfolding assms(6) [symmetric] by (simp add: filtered_by_height_def)
  show "subseq fbh sd"
    using assms(6) by (auto simp: filtered_by_height_def)
next
  assume "sort_order u = ''Ascending''"
  then have "sorted (map (col h) sd)"
    using assms(5) sorted_sort_values(1) [of h fd] by (simp add: sorted_data_def)
  then show "sorted (map (col h) fbh)"
    using assms(6) sorted_filtered_by_height(1) by blast
next
  assume "sort_order u \<noteq> ''Ascending''"
  then have "sorted (rev (map (col h) sd))"
    using assms(5) sorted_sort_values(2) [of h fd] by (simp add: sorted_data_def)
  then show "sorted (rev (map (col h) fbh))"
    using assms(6) sorted_filtered_by_height(2) by blast
next
  assume ne: "fbh \<noteq> []"
  obtain t where tall: "tallest_skyscraper h fd = Inr t"
    using tallest_of_upload [OF assms(3,4)] by blast
  note page = page_height [OF assms(1-4) tall assms(5,6)]
  show "Expander_write fbh \<in> set (fst (script (Some (Workbook cols rs)) u))"
    unfolding page fst_emit fst_table_section using ne by simp
  show "Pyplot_hist 10 (map (col h) fbh) \<in> set (fst (script (Some (Workbook cols rs)) u))"
    unfolding page fst_emit fst_table_section using ne by simp
  show "Pydeck_chart fbh (mean (List.map_filter (\<lambda>x. latitude (snd x)) fbh))
          (mean (List.map_filter (\<lambda>x. longitude (snd x)) fbh))
        \<in> set (fst (script (Some (Workbook cols rs)) u))"
    unfolding page fst_emit fst_map_section using ne by simp
qed

lemma map_filter_append:
  "List.map_filter f (xs @ ys) = List.map_filter f xs @ List.map_filter f ys"
  by (simp add: List.map_filter_def)

lemma samples_of_sample_lines:
  "List.map_filter sample_of (map (\<lambda>x. Write_sample (g x) (n x) (v x)) xs)
     = map (\<lambda>x. (g x, n x, v x)) xs"
  by (induction xs) (simp_all add: List.map_filter_simps)

text \<open>
  Claim C10. The sample lines of the page are the first five rows of the filtered-by-height
  set (all of them when there are fewer), in its order, each with its label plus one, its
  name and its height; so there are at most five.
\<close>

theorem sample_lines:
  assumes "valid_upload cols" and "height_column_name cols = Some h"
    and "filtered_data (full_table cols rs) (selected_city u) = fd" and "fd \<noteq> []"
    and "sorted_data (Some h) (sort_order u = ''Ascending'') fd = sd"
    and "filtered_by_height h (min_height u) sd = fbh"
  shows "List.map_filter sample_of (fst (script (Some (Workbook cols rs)) u))
           = map (\<lambda>x. (fst x + 1, name (snd x), col h x)) (take 5 fbh)
       \<and> length (List.map_filter sample_of (fst (script (Some (Workbook cols rs)) u))) \<le> 5"
proof -
  obtain t where tall: "tallest_skyscraper h fd = Inr t"
    using tallest_of_upload [OF assms(3,4)] by blast
  have "List.map_filter sample_of (fst (script (Some (Workbook cols rs)) u))
           = map (\<lambda>x. (fst x + 1, name (snd x), col h x)) (take 5 fbh)"
    unfolding page_height [OF assms(1-4) tall assms(5,6)] fst_emit fst_map_section
      fst_table_section fst_sample_section
    by (simp add: map_filter_append List.map_filter_simps samples_of_sample_lines
          del: set_map)
  then show ?thesis by simp
qed


lemma nonempty_three_rows:
  "filtered_data (full_table sheet_header three_rows) (selected_city nyc_ascending) \<noteq> []"
  by (simp add: filtered_three_rows)

lemma filtered_by_height_three_rows:
  "filtered_by_height ''statistics.height'' (min_height nyc_ascending)
     (sorted_data (Some ''statistics.height'') (sort_order nyc_ascending = ''Ascending'')
        (filtered_data (full_table sheet_header three_rows) (selected_city nyc_ascending)))
   = [(1, building ''B'' ''NYC'' (Some 41) (Some (-73)) 100),
      (0, building ''A'' ''NYC'' (Some 40) (Some (-74)) 300)]"
  unfolding filtered_three_rows
  by (simp add: sorted_data_def sort_values_def filtered_by_height_def col_def building_def
        nyc_ascending_def)

theorem filtered_by_height_exact_witness:
  "valid_upload sheet_header \<and> height_column_name sheet_header = Some ''statistics.height''
   \<and> filtered_data (full_table sheet_header three_rows) (selected_city nyc_ascending) \<noteq> []
   \<and> sort_order nyc_ascending = ''Ascending''
   \<and> subseq
        [(1, building ''B'' ''NYC'' (Some 41) (Some (-73)) 100),
         (0, building ''A'' ''NYC'' (Some 40) (Some (-74)) 300)]
        (sorted_data (Some ''statistics.height'') (sort_order nyc_ascending = ''Ascending'')
           (filtered_data (full_table sheet_header three_rows) (selected_city nyc_ascending)))
   \<and> sorted (map (col ''statistics.height'')
        [(1, building ''B'' ''NYC'' (Some 41) (Some (-73)) 100),
         (0, building ''A'' ''NYC'' (Some 40) (Some (-74)) 300)])
   \<and> Expander_write
        [(1, building ''B'' ''NYC'' (Some 41) (Some (-73)) 100),
         (0, building ''A'' ''NYC'' (Some 40) (Some (-74)) 300)]
      \<in> set (fst (script (Some (Workbook sheet_header three_rows)) nyc_ascending))"
proof -
  have asc: "sort_order nyc_ascending = ''Ascending''"
    by (simp add: nyc_ascending_def)
  have ne: "[(1, building ''B'' ''NYC'' (Some 41) (Some (-73)) 100),
             (0, building ''A'' ''NYC'' (Some 40) (Some (-74)) 300)] \<noteq> []"
    by simp
  from filtered_by_height_exact [OF valid_sheet_header height_sheet_header refl
      nonempty_three_rows refl filtered_by_height_three_rows]
    valid_sheet_header height_sheet_header nonempty_three_rows asc ne
  show ?thesis by blast
qed

theorem sample_lines_witness:
  "valid_upload sheet_header \<and> height_column_name sheet_header = Some ''statistics.height''
   \<and> filtered_data (full_table sheet_header three_rows) (selected_city nyc_ascending) \<noteq> []
   \<and> List.map_filter sample_of
        (fst (script (Some (Workbook sheet_header three_rows)) nyc_ascending))
      = [(2, ''B'', 100), (1, ''A'', 300)]"
proof -
  have "map (\<lambda>x. (fst x + 1, name (snd x), col ''statistics.height'' x))
          (take 5 [(1, building ''B'' ''NYC'' (Some 41) (Some (-73)) 100),
                   (0, building ''A'' ''NYC'' (Some 40) (Some (-74)) 300)])
        = [(2, ''B'', 100), (1, ''A'', 300)]"
    by (simp add: col_def building_def)
  with sample_lines [OF valid_sheet_header height_sheet_header refl
      nonempty_three_rows refl filtered_by_height_three_rows]
    valid_sheet_header height_sheet_header nonempty_three_rows
  show ?thesis by simp
qed

section \<open>Average height by city\<close>




lemma full_table_three_rows:
  "rows (full_table sheet_header three_rows) =
     [(0, building ''A'' ''NYC'' (Some 40) (Some (-74)) 300),
      (1, building ''B'' ''NYC'' (Some 41) (Some (-73)) 100),
      (2, building ''C'' ''LA'' (Some 34) (Some (-118)) 200)]"
  by (simp add: full_table_def dropna_def three_rows_def building_def)



section \<open>Pie chart\<close>















lemma top_cities_three_rows:
  "top_cities (full_table sheet_header three_rows) = [(''NYC'', 2), (''LA'', 1)]"
  unfolding top_cities_def full_table_three_rows
  by (simp add: value_counts_def unique_def building_def)




section \<open>No height column\<close>

text \<open>
  Claim C5, as amended. For a valid upload in which no label contains "height", the script
  runs to its end and the page is: the sidebar error, the two selection widgets, the
  warning that sorting is skipped, the balloons when the city has rows, the highlights
  heading with its warning, and the pie section. There is no sorted table, no table of
  averages, no highlights table, no slider, no map, no histogram and no sample line; the
  pie chart of cities, which does not read the height, is still drawn.
\<close>

theorem page_without_height:
  assumes "valid_upload cols" and "height_column_name cols = None"
  shows "script (Some (Workbook cols rs)) u =
     ([Markdown_style, Title ''Skyscrapers Around the United States'',
       File_uploader ''Upload your Excel file'',
       Sidebar_write (length rs) (length cols),
       Sidebar_error ''No column containing 'height' found!'',
       Selectbox ''Select a city:'' (cities (full_table cols rs)),
       Radio ''Sort skyscrapers by height:'' [''Ascending'', ''Descending''],
       Warning ''Height column not found, skipping sorting.'']
      @ (if filtered_data (full_table cols rs) (selected_city u) \<noteq> [] then [Balloons] else [])
      @ [Subheader ''Key Highlights'', Warning ''No data available for the selected city.'']
      @ (if rows (full_table cols rs) \<noteq> []
         then [Subheader ''Distribution of Skyscrapers by City'',
               Pyplot_pie (top_cities (full_table cols rs))]
         else [Warning ''Data is not defined or empty.'']), Done)"
proof -
  have "fst (pie_section (Some (full_table cols rs))) =
      (if rows (full_table cols rs) \<noteq> []
       then [Subheader ''Distribution of Skyscrapers by City'',
             Pyplot_pie (top_cities (full_table cols rs))]
       else [Warning ''Data is not defined or empty.''])"
    using valid_required(2) [OF assms(1)]
    by (simp add: pie_section_rows pie_section_empty columns_full_table fst_emit)
  then show ?thesis
    unfolding page_no_height [OF assms] by (simp only: emit_def)
qed

theorem page_without_height_witness:
  "valid_upload floors_header \<and> height_column_name floors_header = None
   \<and> script (Some (Workbook floors_header three_rows)) nyc_ascending =
     ([Markdown_style, Title ''Skyscrapers Around the United States'',
       File_uploader ''Upload your Excel file'',
       Sidebar_write (length three_rows) (length floors_header),
       Sidebar_error ''No column containing 'height' found!'',
       Selectbox ''Select a city:'' (cities (full_table floors_header three_rows)),
       Radio ''Sort skyscrapers by height:'' [''Ascending'', ''Descending''],
       Warning ''Height column not found, skipping sorting.'']
      @ (if filtered_data (full_table floors_header three_rows) (selected_city nyc_ascending) \<noteq> []
         then [Balloons] else [])
      @ [Subheader ''Key Highlights'', Warning ''No data available for the selected city.'']
      @ (if rows (full_table floors_header three_rows) \<noteq> []
         then [Subheader ''Distribution of Skyscrapers by City'',
               Pyplot_pie (top_cities (full_table floors_header three_rows))]
         else [Warning ''Data is not defined or empty.'']), Done)"
  using page_without_height [OF valid_floors_header height_floors_header, of three_rows nyc_ascending]
    valid_floors_header height_floors_header
  by blast

lemma full_table_floors_three_rows:
  "rows (full_table floors_header three_rows) = rows (full_table sheet_header three_rows)"
  by (simp add: full_table_def dropna_def)

text \<open>Without a height column the pie chart is on the page.\<close>

theorem pie_without_height_counterexample:
  "height_column_name floors_header = None
   \<and> Pyplot_pie [(''NYC'', 2), (''LA'', 1)]
       \<in> set (fst (script (Some (Workbook floors_header three_rows)) nyc_ascending))"
proof -
  have tc: "top_cities (full_table floors_header three_rows) = [(''NYC'', 2), (''LA'', 1)]"
    using top_cities_three_rows
    by (simp add: top_cities_def full_table_floors_three_rows)
  have ne: "rows (full_table floors_header three_rows) \<noteq> []"
    by (simp add: full_table_floors_three_rows full_table_three_rows)
  then have "fst (pie_section (Some (full_table floors_header three_rows))) =
      [Subheader ''Distribution of Skyscrapers by City'', Pyplot_pie [(''NYC'', 2), (''LA'', 1)]]"
    using valid_required(2) [OF valid_floors_header]
    by (simp add: pie_section_rows columns_full_table fst_emit tc)
  then have "Pyplot_pie [(''NYC'', 2), (''LA'', 1)]
       \<in> set (fst (script (Some (Workbook floors_header three_rows)) nyc_ascending))"
    unfolding page_no_height [OF valid_floors_header height_floors_header] fst_emit
    by simp
  with height_floors_header show ?thesis by blast
qed

end
